theory Spec2Isabelle
  imports Main
begin

section \<open>Data model\<close>

text \<open>
  The relational operations of \<^verbatim>\<open>src/ops/compare.ts\<close> work on \<^verbatim>\<open>Tensor\<close> objects.
  A tensor object is a handle; what it holds (its shape, its element type tag and its
  flat row-major data) lives in the registry of the execution engine, so that a write to
  an operand would be visible as a change of the registry. The element values are kept
  polymorphic: nothing in \<^verbatim>\<open>compare.ts\<close> looks at them.
\<close>

type_synonym Shape = "nat list"

type_synonym DataType = string

type_synonym Tensor = nat

record 'v TensorData =
  shape :: Shape
  dtype :: DataType
  elems :: "'v list"

text \<open>
  An operand has the TypeScript type \<^verbatim>\<open>Tensor|TensorLike\<close>: an existing tensor or a
  literal. The grammar of literals is not defined by this layer; literals are values of a
  type parameter and are read by a function the caller supplies.
\<close>

datatype 'l Operand = IsTensor Tensor | IsTensorLike 'l

text \<open>The error kinds of the layer, each carrying its message.\<close>

datatype error =
    InvalidOperandError string
  | TypeMismatchError string
  | ShapeMismatchError string
  | BackendError string

text \<open>
  The backend offers one kernel per relation. A kernel is given the contents of the two
  operand tensors and returns the contents of a newly computed tensor, or fails.
\<close>

record 'v Backend =
  backend_notEqual :: "'v TensorData \<Rightarrow> 'v TensorData \<Rightarrow> error + 'v TensorData"
  backend_less :: "'v TensorData \<Rightarrow> 'v TensorData \<Rightarrow> error + 'v TensorData"
  backend_equal :: "'v TensorData \<Rightarrow> 'v TensorData \<Rightarrow> error + 'v TensorData"
  backend_lessEqual :: "'v TensorData \<Rightarrow> 'v TensorData \<Rightarrow> error + 'v TensorData"
  backend_greater :: "'v TensorData \<Rightarrow> 'v TensorData \<Rightarrow> error + 'v TensorData"
  backend_greaterEqual :: "'v TensorData \<Rightarrow> 'v TensorData \<Rightarrow> error + 'v TensorData"

text \<open>
  The engine reached through \<^verbatim>\<open>ENV.engine\<close> is process-wide mutable state; here it is
  passed explicitly. \<open>registry\<close> gives the contents of every tensor handle, the handles
  below \<open>nextTensorId\<close> are the ones in use, \<open>kernelRuns\<close> counts how often a kernel
  function was handed the backend, and \<open>tape\<close> is the engine's record of the named
  inputs of every result.
\<close>

record 'v Engine =
  backend :: "'v Backend"
  registry :: "Tensor \<Rightarrow> 'v TensorData"
  nextTensorId :: nat
  kernelRuns :: nat
  tape :: "((string \<times> Tensor) list \<times> Tensor) list"

section \<open>Collaborators of the layer\<close>

subsection \<open>Rendering shapes in messages\<close>

text \<open>
  Modelled from the spec: the wording of the messages is not among the sources.
  Section 7 asks that the message of a shape error include both shapes; a shape is
  rendered as its sizes in decimal, separated by commas.
\<close>

fun showNat :: "nat \<Rightarrow> string" where
  "showNat n =
     (if n < 10 then [''0123456789'' ! n]
      else showNat (n div 10) @ [''0123456789'' ! (n mod 10)])"

fun showShape :: "Shape \<Rightarrow> string" where
  "showShape [] = []"
| "showShape [d] = showNat d"
| "showShape (d # ds) = showNat d @ '','' @ showShape ds"

subsection \<open>Allocation of a tensor\<close>

text \<open>
  Modelled from the spec: the construction of a \<^verbatim>\<open>Tensor\<close> is not among the sources.
  Section 3: a result or a coerced literal is a newly constructed tensor; it takes the
  next handle that is not in use, and no other handle changes.
\<close>

definition register :: "'v Engine \<Rightarrow> 'v TensorData \<Rightarrow> Tensor \<times> 'v Engine" where
  "register E d =
     (nextTensorId E,
      E\<lparr>registry := (registry E)(nextTensorId E := d),
        nextTensorId := Suc (nextTensorId E)\<rparr>)"

subsection \<open>Operand coercion\<close>

text \<open>
  Modelled from the spec: \<^verbatim>\<open>convertToTensor\<close> of \<^verbatim>\<open>tensor_util\<close> is not among the
  sources. Section 4.1: it accepts an existing tensor or a literal, fails with
  \<^verbatim>\<open>InvalidOperandError\<close> naming the role and the operation when the value cannot be read
  as a tensor, and has no effect but the allocation of a new tensor for a literal.
\<close>

definition invalidOperand :: "string \<Rightarrow> string \<Rightarrow> error" where
  "invalidOperand argName functionName =
     InvalidOperandError
       (''Argument '' @ argName @ '' passed to '' @ functionName @
        '' cannot be read as a tensor'')"

definition convertToTensor ::
  "('l \<Rightarrow> 'v TensorData option) \<Rightarrow> 'v Engine \<Rightarrow> 'l Operand \<Rightarrow> string \<Rightarrow> string
     \<Rightarrow> (error + Tensor) \<times> 'v Engine" where
  "convertToTensor readLiteral E x argName functionName =
     (case x of
        IsTensor t \<Rightarrow> (Inr t, E)
      | IsTensorLike l \<Rightarrow>
          (case readLiteral l of
             None \<Rightarrow> (Inl (invalidOperand argName functionName), E)
           | Some d \<Rightarrow> (case register E d of (t, E') \<Rightarrow> (Inr t, E'))))"

subsection \<open>Type consistency\<close>

text \<open>
  Modelled from the spec: \<^verbatim>\<open>assertTypesMatch\<close> of \<^verbatim>\<open>tensor_util\<close> is not among the
  sources. Section 4.2: it fails with \<^verbatim>\<open>TypeMismatchError\<close> unless both tensors report
  the same element type.
\<close>

definition assertTypesMatch :: "'v TensorData \<Rightarrow> 'v TensorData \<Rightarrow> error + unit" where
  "assertTypesMatch a b =
     (if dtype a = dtype b then Inr ()
      else Inl (TypeMismatchError
             (''The dtypes of the operands ('' @ dtype a @ '' and '' @ dtype b @
              '') must match'')))"

subsection \<open>Broadcast shape resolution\<close>

text \<open>
  Modelled from the spec: \<^verbatim>\<open>assertAndGetBroadcastShape\<close> of \<^verbatim>\<open>broadcast_util\<close> is not
  among the sources. Section 4.3: the axes are visited from the trailing end, an axis
  that the shorter shape lacks reads as size 1, two sizes are compatible when they are
  equal or one of them is 1, the resolved size is the larger one, and the first
  incompatible pair fails with \<^verbatim>\<open>ShapeMismatchError\<close> reporting both shapes. A pair that
  is not compatible is taken as incompatible, also when one of its sizes is 0 (step 3
  glosses incompatible as both sizes above 1 and unequal, which is the same for sizes
  that are not 0).
\<close>

definition axisCompatible :: "nat \<Rightarrow> nat \<Rightarrow> bool" where
  "axisCompatible a b = (a = b \<or> a = 1 \<or> b = 1)"

text \<open>
  The loop over the axes: both shapes are given reversed (trailing axis first), and the
  resolved sizes are pushed on the front of the result.
\<close>

fun resolveAxes :: "nat list \<Rightarrow> nat list \<Rightarrow> Shape \<Rightarrow> Shape option" where
  "resolveAxes [] [] result = Some result"
| "resolveAxes (a # as) [] result =
     (if axisCompatible a 1 then resolveAxes as [] (max a 1 # result) else None)"
| "resolveAxes [] (b # bs) result =
     (if axisCompatible 1 b then resolveAxes [] bs (max 1 b # result) else None)"
| "resolveAxes (a # as) (b # bs) result =
     (if axisCompatible a b then resolveAxes as bs (max a b # result) else None)"

definition assertAndGetBroadcastShape :: "Shape \<Rightarrow> Shape \<Rightarrow> error + Shape" where
  "assertAndGetBroadcastShape shapeA shapeB =
     (case resolveAxes (rev shapeA) (rev shapeB) [] of
        None \<Rightarrow>
          Inl (ShapeMismatchError
                 (''Operands could not be broadcast together with shapes '' @
                  showShape shapeA @ '' and '' @ showShape shapeB))
      | Some s \<Rightarrow> Inr s)"

subsection \<open>Strict shape validation\<close>

text \<open>
  Modelled from the spec: \<^verbatim>\<open>assertShapesMatch\<close> of \<^verbatim>\<open>util\<close> is not among the sources.
  Section 4.4: it fails with \<^verbatim>\<open>ShapeMismatchError\<close> unless the two shapes are identical
  rank for rank and size for size; the message starts with the context string and
  (section 7) includes both shapes.
\<close>

fun sizesEqual :: "nat list \<Rightarrow> nat list \<Rightarrow> bool" where
  "sizesEqual [] [] = True"
| "sizesEqual (a # as) (b # bs) = (a = b \<and> sizesEqual as bs)"
| "sizesEqual _ _ = False"

definition assertShapesMatch :: "Shape \<Rightarrow> Shape \<Rightarrow> string \<Rightarrow> error + unit" where
  "assertShapesMatch shapeA shapeB errorMessagePrefix =
     (if length shapeA = length shapeB \<and> sizesEqual shapeA shapeB then Inr ()
      else Inl (ShapeMismatchError
             (errorMessagePrefix @ ''Shapes '' @ showShape shapeA @ '' and '' @
              showShape shapeB @ '' must match'')))"

subsection \<open>The execution engine\<close>

text \<open>
  Modelled from the spec: \<^verbatim>\<open>runKernel\<close> of the engine is not among the sources.
  Section 6: the kernel function is given the active backend and must return a newly
  computed tensor; the engine registers the result under a fresh handle and records the
  named inputs against it. A failure of the backend is passed on unchanged.
\<close>

definition runKernel ::
  "'v Engine \<Rightarrow> ('v Backend \<Rightarrow> error + 'v TensorData) \<Rightarrow> (string \<times> Tensor) list
     \<Rightarrow> (error + Tensor) \<times> 'v Engine" where
  "runKernel E kernelFn inputs =
     (let E1 = E\<lparr>kernelRuns := Suc (kernelRuns E)\<rparr> in
      case kernelFn (backend E1) of
        Inl e \<Rightarrow> (Inl e, E1)
      | Inr d \<Rightarrow>
          (case register E1 d of
             (t, E2) \<Rightarrow> (Inr t, E2\<lparr>tape := tape E2 @ [(inputs, t)]\<rparr>)))"

section \<open>The relational operations of \<^verbatim>\<open>CompareOps\<close>\<close>

text \<open>
  The twelve static methods of the class, in the order of the source. A call takes the
  reader of literals and the engine, and returns the engine as the call leaves it
  together with the result handle or the error thrown; an error ends the call at the
  statement that throws it. The names \<open>less\<close>, \<open>equal\<close> and \<open>greater\<close> are taken in
  HOL, so these three entries carry the suffix \<open>_op\<close>. The decorators \<^verbatim>\<open>@doc\<close> and
  \<^verbatim>\<open>@operation\<close> are not among the sources and are not modelled.

  In \<^verbatim>\<open>src/ops/compare.ts\<close>: \<^verbatim>\<open>notEqual\<close> lines 45-53, \<^verbatim>\<open>notEqualStrict\<close> 64-69,
  \<^verbatim>\<open>less\<close> 88-95, \<^verbatim>\<open>lessStrict\<close> 106-111, \<^verbatim>\<open>equal\<close> 131-140, \<^verbatim>\<open>equalStrict\<close> 143-148,
  \<^verbatim>\<open>lessEqual\<close> 168-177, \<^verbatim>\<open>lessEqualStrict\<close> 180-186, \<^verbatim>\<open>greater\<close> 206-215,
  \<^verbatim>\<open>greaterStrict\<close> 218-223, \<^verbatim>\<open>greaterEqual\<close> 243-252, \<^verbatim>\<open>greaterEqualStrict\<close> 255-261.

  The strict entries end in a call of a tensor method (\<^verbatim>\<open>$a.notEqual($b)\<close>), which
  stands before each of them.
\<close>

definition notEqual ::
  "('l \<Rightarrow> 'v TensorData option) \<Rightarrow> 'v Engine \<Rightarrow> 'l Operand \<Rightarrow> 'l Operand
     \<Rightarrow> (error + Tensor) \<times> 'v Engine" where
  "notEqual readLiteral E a b =
     (case convertToTensor readLiteral E a ''a'' ''notEqual'' of
        (Inl e, E1) \<Rightarrow> (Inl e, E1)
      | (Inr ta, E1) \<Rightarrow>
     (case convertToTensor readLiteral E1 b ''b'' ''notEqual'' of
        (Inl e, E2) \<Rightarrow> (Inl e, E2)
      | (Inr tb, E2) \<Rightarrow>
     (case assertTypesMatch (registry E2 ta) (registry E2 tb) of
        Inl e \<Rightarrow> (Inl e, E2)
      | Inr _ \<Rightarrow>
     (case assertAndGetBroadcastShape (shape (registry E2 ta)) (shape (registry E2 tb)) of
        Inl e \<Rightarrow> (Inl e, E2)
      | Inr _ \<Rightarrow>
          runKernel E2 (\<lambda>theBackend. backend_notEqual theBackend (registry E2 ta) (registry E2 tb))
            [(''$a'', ta), (''$b'', tb)]))))"

text \<open>
  Modelled from the spec: the method \<^verbatim>\<open>notEqual\<close> of \<^verbatim>\<open>Tensor\<close> is not among the
  sources. Section 4.6: the strict entry delegates to the corresponding broadcasting
  entry, so the method is that entry called on the two tensors.
\<close>

definition Tensor_notEqual ::
  "('l \<Rightarrow> 'v TensorData option) \<Rightarrow> 'v Engine \<Rightarrow> Tensor \<Rightarrow> Tensor
     \<Rightarrow> (error + Tensor) \<times> 'v Engine" where
  "Tensor_notEqual readLiteral E this x = notEqual readLiteral E (IsTensor this) (IsTensor x)"

definition notEqualStrict ::
  "('l \<Rightarrow> 'v TensorData option) \<Rightarrow> 'v Engine \<Rightarrow> 'l Operand \<Rightarrow> 'l Operand
     \<Rightarrow> (error + Tensor) \<times> 'v Engine" where
  "notEqualStrict readLiteral E a b =
     (case convertToTensor readLiteral E a ''a'' ''notEqualStrict'' of
        (Inl e, E1) \<Rightarrow> (Inl e, E1)
      | (Inr ta, E1) \<Rightarrow>
     (case convertToTensor readLiteral E1 b ''b'' ''notEqualStrict'' of
        (Inl e, E2) \<Rightarrow> (Inl e, E2)
      | (Inr tb, E2) \<Rightarrow>
     (case assertShapesMatch (shape (registry E2 ta)) (shape (registry E2 tb))
             ''Error in notEqualStrict: '' of
        Inl e \<Rightarrow> (Inl e, E2)
      | Inr _ \<Rightarrow> Tensor_notEqual readLiteral E2 ta tb)))"

definition less_op ::
  "('l \<Rightarrow> 'v TensorData option) \<Rightarrow> 'v Engine \<Rightarrow> 'l Operand \<Rightarrow> 'l Operand
     \<Rightarrow> (error + Tensor) \<times> 'v Engine" where
  "less_op readLiteral E a b =
     (case convertToTensor readLiteral E a ''a'' ''less'' of
        (Inl e, E1) \<Rightarrow> (Inl e, E1)
      | (Inr ta, E1) \<Rightarrow>
     (case convertToTensor readLiteral E1 b ''b'' ''less'' of
        (Inl e, E2) \<Rightarrow> (Inl e, E2)
      | (Inr tb, E2) \<Rightarrow>
     (case assertTypesMatch (registry E2 ta) (registry E2 tb) of
        Inl e \<Rightarrow> (Inl e, E2)
      | Inr _ \<Rightarrow>
     (case assertAndGetBroadcastShape (shape (registry E2 ta)) (shape (registry E2 tb)) of
        Inl e \<Rightarrow> (Inl e, E2)
      | Inr _ \<Rightarrow>
          runKernel E2 (\<lambda>theBackend. backend_less theBackend (registry E2 ta) (registry E2 tb))
            [(''$a'', ta), (''$b'', tb)]))))"

text \<open>
  Modelled from the spec: the method \<^verbatim>\<open>less\<close> of \<^verbatim>\<open>Tensor\<close> is not among the
  sources. Section 4.6: the strict entry delegates to the corresponding broadcasting
  entry, so the method is that entry called on the two tensors.
\<close>

definition Tensor_less ::
  "('l \<Rightarrow> 'v TensorData option) \<Rightarrow> 'v Engine \<Rightarrow> Tensor \<Rightarrow> Tensor
     \<Rightarrow> (error + Tensor) \<times> 'v Engine" where
  "Tensor_less readLiteral E this x = less_op readLiteral E (IsTensor this) (IsTensor x)"

definition lessStrict ::
  "('l \<Rightarrow> 'v TensorData option) \<Rightarrow> 'v Engine \<Rightarrow> 'l Operand \<Rightarrow> 'l Operand
     \<Rightarrow> (error + Tensor) \<times> 'v Engine" where
  "lessStrict readLiteral E a b =
     (case convertToTensor readLiteral E a ''a'' ''lessStrict'' of
        (Inl e, E1) \<Rightarrow> (Inl e, E1)
      | (Inr ta, E1) \<Rightarrow>
     (case convertToTensor readLiteral E1 b ''b'' ''lessStrict'' of
        (Inl e, E2) \<Rightarrow> (Inl e, E2)
      | (Inr tb, E2) \<Rightarrow>
     (case assertShapesMatch (shape (registry E2 ta)) (shape (registry E2 tb))
             ''Error in lessStrict: '' of
        Inl e \<Rightarrow> (Inl e, E2)
      | Inr _ \<Rightarrow> Tensor_less readLiteral E2 ta tb)))"

definition equal_op ::
  "('l \<Rightarrow> 'v TensorData option) \<Rightarrow> 'v Engine \<Rightarrow> 'l Operand \<Rightarrow> 'l Operand
     \<Rightarrow> (error + Tensor) \<times> 'v Engine" where
  "equal_op readLiteral E a b =
     (case convertToTensor readLiteral E a ''a'' ''equal'' of
        (Inl e, E1) \<Rightarrow> (Inl e, E1)
      | (Inr ta, E1) \<Rightarrow>
     (case convertToTensor readLiteral E1 b ''b'' ''equal'' of
        (Inl e, E2) \<Rightarrow> (Inl e, E2)
      | (Inr tb, E2) \<Rightarrow>
     (case assertTypesMatch (registry E2 ta) (registry E2 tb) of
        Inl e \<Rightarrow> (Inl e, E2)
      | Inr _ \<Rightarrow>
     (case assertAndGetBroadcastShape (shape (registry E2 ta)) (shape (registry E2 tb)) of
        Inl e \<Rightarrow> (Inl e, E2)
      | Inr _ \<Rightarrow>
          runKernel E2 (\<lambda>theBackend. backend_equal theBackend (registry E2 ta) (registry E2 tb))
            [(''$a'', ta), (''$b'', tb)]))))"

text \<open>
  Modelled from the spec: the method \<^verbatim>\<open>equal\<close> of \<^verbatim>\<open>Tensor\<close> is not among the
  sources. Section 4.6: the strict entry delegates to the corresponding broadcasting
  entry, so the method is that entry called on the two tensors.
\<close>

definition Tensor_equal ::
  "('l \<Rightarrow> 'v TensorData option) \<Rightarrow> 'v Engine \<Rightarrow> Tensor \<Rightarrow> Tensor
     \<Rightarrow> (error + Tensor) \<times> 'v Engine" where
  "Tensor_equal readLiteral E this x = equal_op readLiteral E (IsTensor this) (IsTensor x)"

definition equalStrict ::
  "('l \<Rightarrow> 'v TensorData option) \<Rightarrow> 'v Engine \<Rightarrow> 'l Operand \<Rightarrow> 'l Operand
     \<Rightarrow> (error + Tensor) \<times> 'v Engine" where
  "equalStrict readLiteral E a b =
     (case convertToTensor readLiteral E a ''a'' ''equalStrict'' of
        (Inl e, E1) \<Rightarrow> (Inl e, E1)
      | (Inr ta, E1) \<Rightarrow>
     (case convertToTensor readLiteral E1 b ''b'' ''equalStrict'' of
        (Inl e, E2) \<Rightarrow> (Inl e, E2)
      | (Inr tb, E2) \<Rightarrow>
     (case assertShapesMatch (shape (registry E2 ta)) (shape (registry E2 tb))
             ''Error in equalStrict: '' of
        Inl e \<Rightarrow> (Inl e, E2)
      | Inr _ \<Rightarrow> Tensor_equal readLiteral E2 ta tb)))"

definition lessEqual ::
  "('l \<Rightarrow> 'v TensorData option) \<Rightarrow> 'v Engine \<Rightarrow> 'l Operand \<Rightarrow> 'l Operand
     \<Rightarrow> (error + Tensor) \<times> 'v Engine" where
  "lessEqual readLiteral E a b =
     (case convertToTensor readLiteral E a ''a'' ''lessEqual'' of
        (Inl e, E1) \<Rightarrow> (Inl e, E1)
      | (Inr ta, E1) \<Rightarrow>
     (case convertToTensor readLiteral E1 b ''b'' ''lessEqual'' of
        (Inl e, E2) \<Rightarrow> (Inl e, E2)
      | (Inr tb, E2) \<Rightarrow>
     (case assertTypesMatch (registry E2 ta) (registry E2 tb) of
        Inl e \<Rightarrow> (Inl e, E2)
      | Inr _ \<Rightarrow>
     (case assertAndGetBroadcastShape (shape (registry E2 ta)) (shape (registry E2 tb)) of
        Inl e \<Rightarrow> (Inl e, E2)
      | Inr _ \<Rightarrow>
          runKernel E2 (\<lambda>theBackend. backend_lessEqual theBackend (registry E2 ta) (registry E2 tb))
            [(''$a'', ta), (''$b'', tb)]))))"

text \<open>
  Modelled from the spec: the method \<^verbatim>\<open>lessEqual\<close> of \<^verbatim>\<open>Tensor\<close> is not among the
  sources. Section 4.6: the strict entry delegates to the corresponding broadcasting
  entry, so the method is that entry called on the two tensors.
\<close>

definition Tensor_lessEqual ::
  "('l \<Rightarrow> 'v TensorData option) \<Rightarrow> 'v Engine \<Rightarrow> Tensor \<Rightarrow> Tensor
     \<Rightarrow> (error + Tensor) \<times> 'v Engine" where
  "Tensor_lessEqual readLiteral E this x = lessEqual readLiteral E (IsTensor this) (IsTensor x)"

definition lessEqualStrict ::
  "('l \<Rightarrow> 'v TensorData option) \<Rightarrow> 'v Engine \<Rightarrow> 'l Operand \<Rightarrow> 'l Operand
     \<Rightarrow> (error + Tensor) \<times> 'v Engine" where
  "lessEqualStrict readLiteral E a b =
     (case convertToTensor readLiteral E a ''a'' ''lessEqualStrict'' of
        (Inl e, E1) \<Rightarrow> (Inl e, E1)
      | (Inr ta, E1) \<Rightarrow>
     (case convertToTensor readLiteral E1 b ''b'' ''lessEqualStrict'' of
        (Inl e, E2) \<Rightarrow> (Inl e, E2)
      | (Inr tb, E2) \<Rightarrow>
     (case assertShapesMatch (shape (registry E2 ta)) (shape (registry E2 tb))
             ''Error in lessEqualStrict: '' of
        Inl e \<Rightarrow> (Inl e, E2)
      | Inr _ \<Rightarrow> Tensor_lessEqual readLiteral E2 ta tb)))"

definition greater_op ::
  "('l \<Rightarrow> 'v TensorData option) \<Rightarrow> 'v Engine \<Rightarrow> 'l Operand \<Rightarrow> 'l Operand
     \<Rightarrow> (error + Tensor) \<times> 'v Engine" where
  "greater_op readLiteral E a b =
     (case convertToTensor readLiteral E a ''a'' ''greater'' of
        (Inl e, E1) \<Rightarrow> (Inl e, E1)
      | (Inr ta, E1) \<Rightarrow>
     (case convertToTensor readLiteral E1 b ''b'' ''greater'' of
        (Inl e, E2) \<Rightarrow> (Inl e, E2)
      | (Inr tb, E2) \<Rightarrow>
     (case assertTypesMatch (registry E2 ta) (registry E2 tb) of
        Inl e \<Rightarrow> (Inl e, E2)
      | Inr _ \<Rightarrow>
     (case assertAndGetBroadcastShape (shape (registry E2 ta)) (shape (registry E2 tb)) of
        Inl e \<Rightarrow> (Inl e, E2)
      | Inr _ \<Rightarrow>
          runKernel E2 (\<lambda>theBackend. backend_greater theBackend (registry E2 ta) (registry E2 tb))
            [(''$a'', ta), (''$b'', tb)]))))"

text \<open>
  Modelled from the spec: the method \<^verbatim>\<open>greater\<close> of \<^verbatim>\<open>Tensor\<close> is not among the
  sources. Section 4.6: the strict entry delegates to the corresponding broadcasting
  entry, so the method is that entry called on the two tensors.
\<close>

definition Tensor_greater ::
  "('l \<Rightarrow> 'v TensorData option) \<Rightarrow> 'v Engine \<Rightarrow> Tensor \<Rightarrow> Tensor
     \<Rightarrow> (error + Tensor) \<times> 'v Engine" where
  "Tensor_greater readLiteral E this x = greater_op readLiteral E (IsTensor this) (IsTensor x)"

definition greaterStrict ::
  "('l \<Rightarrow> 'v TensorData option) \<Rightarrow> 'v Engine \<Rightarrow> 'l Operand \<Rightarrow> 'l Operand
     \<Rightarrow> (error + Tensor) \<times> 'v Engine" where
  "greaterStrict readLiteral E a b =
     (case convertToTensor readLiteral E a ''a'' ''greaterStrict'' of
        (Inl e, E1) \<Rightarrow> (Inl e, E1)
      | (Inr ta, E1) \<Rightarrow>
     (case convertToTensor readLiteral E1 b ''b'' ''greaterStrict'' of
        (Inl e, E2) \<Rightarrow> (Inl e, E2)
      | (Inr tb, E2) \<Rightarrow>
     (case assertShapesMatch (shape (registry E2 ta)) (shape (registry E2 tb))
             ''Error in greaterStrict: '' of
        Inl e \<Rightarrow> (Inl e, E2)
      | Inr _ \<Rightarrow> Tensor_greater readLiteral E2 ta tb)))"

definition greaterEqual ::
  "('l \<Rightarrow> 'v TensorData option) \<Rightarrow> 'v Engine \<Rightarrow> 'l Operand \<Rightarrow> 'l Operand
     \<Rightarrow> (error + Tensor) \<times> 'v Engine" where
  "greaterEqual readLiteral E a b =
     (case convertToTensor readLiteral E a ''a'' ''greaterEqual'' of
        (Inl e, E1) \<Rightarrow> (Inl e, E1)
      | (Inr ta, E1) \<Rightarrow>
     (case convertToTensor readLiteral E1 b ''b'' ''greaterEqual'' of
        (Inl e, E2) \<Rightarrow> (Inl e, E2)
      | (Inr tb, E2) \<Rightarrow>
     (case assertTypesMatch (registry E2 ta) (registry E2 tb) of
        Inl e \<Rightarrow> (Inl e, E2)
      | Inr _ \<Rightarrow>
     (case assertAndGetBroadcastShape (shape (registry E2 ta)) (shape (registry E2 tb)) of
        Inl e \<Rightarrow> (Inl e, E2)
      | Inr _ \<Rightarrow>
          runKernel E2 (\<lambda>theBackend. backend_greaterEqual theBackend (registry E2 ta) (registry E2 tb))
            [(''$a'', ta), (''$b'', tb)]))))"

text \<open>
  Modelled from the spec: the method \<^verbatim>\<open>greaterEqual\<close> of \<^verbatim>\<open>Tensor\<close> is not among the
  sources. Section 4.6: the strict entry delegates to the corresponding broadcasting
  entry, so the method is that entry called on the two tensors.
\<close>

definition Tensor_greaterEqual ::
  "('l \<Rightarrow> 'v TensorData option) \<Rightarrow> 'v Engine \<Rightarrow> Tensor \<Rightarrow> Tensor
     \<Rightarrow> (error + Tensor) \<times> 'v Engine" where
  "Tensor_greaterEqual readLiteral E this x = greaterEqual readLiteral E (IsTensor this) (IsTensor x)"

definition greaterEqualStrict ::
  "('l \<Rightarrow> 'v TensorData option) \<Rightarrow> 'v Engine \<Rightarrow> 'l Operand \<Rightarrow> 'l Operand
     \<Rightarrow> (error + Tensor) \<times> 'v Engine" where
  "greaterEqualStrict readLiteral E a b =
     (case convertToTensor readLiteral E a ''a'' ''greaterEqualStrict'' of
        (Inl e, E1) \<Rightarrow> (Inl e, E1)
      | (Inr ta, E1) \<Rightarrow>
     (case convertToTensor readLiteral E1 b ''b'' ''greaterEqualStrict'' of
        (Inl e, E2) \<Rightarrow> (Inl e, E2)
      | (Inr tb, E2) \<Rightarrow>
     (case assertShapesMatch (shape (registry E2 ta)) (shape (registry E2 tb))
             ''Error in greaterEqualStrict: '' of
        Inl e \<Rightarrow> (Inl e, E2)
      | Inr _ \<Rightarrow> Tensor_greaterEqual readLiteral E2 ta tb)))"


section \<open>The operation set as a table\<close>

text \<open>
  The six relations, and for each of them its broadcasting entry, its strict entry, the
  names of both and the kernel of the backend it asks for: the table of section 4.6 of
  the spec, filled in from the source. A statement about every entry is a statement
  about \<open>broadcastingEntry r\<close> and \<open>strictEntry r\<close> for every \<open>r\<close>.
\<close>

datatype Relation =
  Rel_notEqual | Rel_less | Rel_equal | Rel_lessEqual | Rel_greater | Rel_greaterEqual

fun broadcastingEntry :: "Relation \<Rightarrow> ('l \<Rightarrow> 'v TensorData option) \<Rightarrow> 'v Engine \<Rightarrow> 'l Operand \<Rightarrow> 'l Operand \<Rightarrow> (error + Tensor) \<times> 'v Engine" where
  "broadcastingEntry Rel_notEqual = notEqual"
| "broadcastingEntry Rel_less = less_op"
| "broadcastingEntry Rel_equal = equal_op"
| "broadcastingEntry Rel_lessEqual = lessEqual"
| "broadcastingEntry Rel_greater = greater_op"
| "broadcastingEntry Rel_greaterEqual = greaterEqual"

fun strictEntry :: "Relation \<Rightarrow> ('l \<Rightarrow> 'v TensorData option) \<Rightarrow> 'v Engine \<Rightarrow> 'l Operand \<Rightarrow> 'l Operand \<Rightarrow> (error + Tensor) \<times> 'v Engine" where
  "strictEntry Rel_notEqual = notEqualStrict"
| "strictEntry Rel_less = lessStrict"
| "strictEntry Rel_equal = equalStrict"
| "strictEntry Rel_lessEqual = lessEqualStrict"
| "strictEntry Rel_greater = greaterStrict"
| "strictEntry Rel_greaterEqual = greaterEqualStrict"

fun broadcastingName :: "Relation \<Rightarrow> string" where
  "broadcastingName Rel_notEqual = ''notEqual''"
| "broadcastingName Rel_less = ''less''"
| "broadcastingName Rel_equal = ''equal''"
| "broadcastingName Rel_lessEqual = ''lessEqual''"
| "broadcastingName Rel_greater = ''greater''"
| "broadcastingName Rel_greaterEqual = ''greaterEqual''"

fun strictName :: "Relation \<Rightarrow> string" where
  "strictName Rel_notEqual = ''notEqualStrict''"
| "strictName Rel_less = ''lessStrict''"
| "strictName Rel_equal = ''equalStrict''"
| "strictName Rel_lessEqual = ''lessEqualStrict''"
| "strictName Rel_greater = ''greaterStrict''"
| "strictName Rel_greaterEqual = ''greaterEqualStrict''"

fun kernelOf :: "Relation \<Rightarrow> 'v Backend \<Rightarrow> 'v TensorData \<Rightarrow> 'v TensorData \<Rightarrow> error + 'v TensorData" where
  "kernelOf Rel_notEqual = backend_notEqual"
| "kernelOf Rel_less = backend_less"
| "kernelOf Rel_equal = backend_equal"
| "kernelOf Rel_lessEqual = backend_lessEqual"
| "kernelOf Rel_greater = backend_greater"
| "kernelOf Rel_greaterEqual = backend_greaterEqual"

text \<open>
  The six broadcasting entries differ only in their name and their kernel, and so do the
  six strict entries. \<open>dispatch\<close> and \<open>dispatchStrict\<close> are these two common bodies;
  each entry of the source is shown below to be an instance, and the proofs are done
  once, on the common bodies.
\<close>

definition dispatch ::
  "string \<Rightarrow> ('v Backend \<Rightarrow> 'v TensorData \<Rightarrow> 'v TensorData \<Rightarrow> error + 'v TensorData)
     \<Rightarrow> ('l \<Rightarrow> 'v TensorData option) \<Rightarrow> 'v Engine \<Rightarrow> 'l Operand \<Rightarrow> 'l Operand
     \<Rightarrow> (error + Tensor) \<times> 'v Engine" where
  "dispatch name theKernel readLiteral E a b =
     (case convertToTensor readLiteral E a ''a'' name of
        (Inl e, E1) \<Rightarrow> (Inl e, E1)
      | (Inr ta, E1) \<Rightarrow>
     (case convertToTensor readLiteral E1 b ''b'' name of
        (Inl e, E2) \<Rightarrow> (Inl e, E2)
      | (Inr tb, E2) \<Rightarrow>
     (case assertTypesMatch (registry E2 ta) (registry E2 tb) of
        Inl e \<Rightarrow> (Inl e, E2)
      | Inr _ \<Rightarrow>
     (case assertAndGetBroadcastShape (shape (registry E2 ta)) (shape (registry E2 tb)) of
        Inl e \<Rightarrow> (Inl e, E2)
      | Inr _ \<Rightarrow>
          runKernel E2 (\<lambda>theBackend. theKernel theBackend (registry E2 ta) (registry E2 tb))
            [(''$a'', ta), (''$b'', tb)]))))"

definition dispatchStrict ::
  "string \<Rightarrow> string \<Rightarrow> ('v Backend \<Rightarrow> 'v TensorData \<Rightarrow> 'v TensorData \<Rightarrow> error + 'v TensorData)
     \<Rightarrow> ('l \<Rightarrow> 'v TensorData option) \<Rightarrow> 'v Engine \<Rightarrow> 'l Operand \<Rightarrow> 'l Operand
     \<Rightarrow> (error + Tensor) \<times> 'v Engine" where
  "dispatchStrict nameStrict name theKernel readLiteral E a b =
     (case convertToTensor readLiteral E a ''a'' nameStrict of
        (Inl e, E1) \<Rightarrow> (Inl e, E1)
      | (Inr ta, E1) \<Rightarrow>
     (case convertToTensor readLiteral E1 b ''b'' nameStrict of
        (Inl e, E2) \<Rightarrow> (Inl e, E2)
      | (Inr tb, E2) \<Rightarrow>
     (case assertShapesMatch (shape (registry E2 ta)) (shape (registry E2 tb))
             (''Error in '' @ nameStrict @ '': '') of
        Inl e \<Rightarrow> (Inl e, E2)
      | Inr _ \<Rightarrow> dispatch name theKernel readLiteral E2 (IsTensor ta) (IsTensor tb))))"

section \<open>Notions the properties are stated with\<close>

text \<open>
  What the coercion of an operand yields, apart from the wording of the error: the
  handle of the coerced tensor and the engine after the coercion, or nothing when the
  operand is refused.
\<close>

definition coerce ::
  "('l \<Rightarrow> 'v TensorData option) \<Rightarrow> 'v Engine \<Rightarrow> 'l Operand \<Rightarrow> (Tensor \<times> 'v Engine) option" where
  "coerce readLiteral E x =
     (case convertToTensor readLiteral E x [] [] of
        (Inl e, E') \<Rightarrow> None
      | (Inr t, E') \<Rightarrow> Some (t, E'))"

text \<open>
  The value of an operand before the call (the contents of the tensor, or what the
  literal reads as), whether a tensor operand is a handle in use, and the outcome of a
  call as a value: the error, or the contents of the result tensor.
\<close>

definition operandValue ::
  "('l \<Rightarrow> 'v TensorData option) \<Rightarrow> 'v Engine \<Rightarrow> 'l Operand \<Rightarrow> 'v TensorData option" where
  "operandValue readLiteral E x =
     (case x of IsTensor t \<Rightarrow> Some (registry E t) | IsTensorLike l \<Rightarrow> readLiteral l)"

definition operandInUse :: "'v Engine \<Rightarrow> 'l Operand \<Rightarrow> bool" where
  "operandInUse E x = (case x of IsTensor t \<Rightarrow> t < nextTensorId E | IsTensorLike l \<Rightarrow> True)"

definition outcome :: "(error + Tensor) \<times> 'v Engine \<Rightarrow> error + 'v TensorData" where
  "outcome r = (case r of (Inl e, E') \<Rightarrow> Inl e | (Inr t, E') \<Rightarrow> Inr (registry E' t))"

text \<open>
  The outcome of a broadcasting and of a strict call written as a function of the values
  of the two operands and of the backend alone; the calls are shown below to have these
  outcomes.
\<close>

definition broadcastingOutcome ::
  "string \<Rightarrow> ('v Backend \<Rightarrow> 'v TensorData \<Rightarrow> 'v TensorData \<Rightarrow> error + 'v TensorData)
     \<Rightarrow> 'v Backend \<Rightarrow> 'v TensorData option \<Rightarrow> 'v TensorData option \<Rightarrow> error + 'v TensorData" where
  "broadcastingOutcome name theKernel theBackend va vb =
     (case va of
        None \<Rightarrow> Inl (invalidOperand ''a'' name)
      | Some da \<Rightarrow>
     (case vb of
        None \<Rightarrow> Inl (invalidOperand ''b'' name)
      | Some db \<Rightarrow>
     (case assertTypesMatch da db of
        Inl e \<Rightarrow> Inl e
      | Inr _ \<Rightarrow>
     (case assertAndGetBroadcastShape (shape da) (shape db) of
        Inl e \<Rightarrow> Inl e
      | Inr _ \<Rightarrow> theKernel theBackend da db))))"

definition strictOutcome ::
  "string \<Rightarrow> string \<Rightarrow> ('v Backend \<Rightarrow> 'v TensorData \<Rightarrow> 'v TensorData \<Rightarrow> error + 'v TensorData)
     \<Rightarrow> 'v Backend \<Rightarrow> 'v TensorData option \<Rightarrow> 'v TensorData option \<Rightarrow> error + 'v TensorData" where
  "strictOutcome nameStrict name theKernel theBackend va vb =
     (case va of
        None \<Rightarrow> Inl (invalidOperand ''a'' nameStrict)
      | Some da \<Rightarrow>
     (case vb of
        None \<Rightarrow> Inl (invalidOperand ''b'' nameStrict)
      | Some db \<Rightarrow>
     (case assertShapesMatch (shape da) (shape db) (''Error in '' @ nameStrict @ '': '') of
        Inl e \<Rightarrow> Inl e
      | Inr _ \<Rightarrow> broadcastingOutcome name theKernel theBackend (Some da) (Some db))))"

subsection \<open>Broadcast compatibility in the words of the spec\<close>

text \<open>
  Section 4.3, steps 1 and 2, read as a description rather than as a loop: the shorter
  shape is padded on the left with 1s, the axes are paired, a pair is compatible when
  its sizes are equal or one of them is 1, a pair is incompatible when both sizes exceed
  1 and differ, and the resolved shape is the pairwise maximum.
\<close>

definition spec_padLeft :: "nat \<Rightarrow> Shape \<Rightarrow> Shape" where
  "spec_padLeft n s = replicate (n - length s) 1 @ s"

definition spec_alignedAxes :: "Shape \<Rightarrow> Shape \<Rightarrow> (nat \<times> nat) list" where
  "spec_alignedAxes s1 s2 =
     (let n = max (length s1) (length s2) in zip (spec_padLeft n s1) (spec_padLeft n s2))"

definition spec_compatible :: "Shape \<Rightarrow> Shape \<Rightarrow> bool" where
  "spec_compatible s1 s2 =
     list_all (\<lambda>(a, b). a = b \<or> a = 1 \<or> b = 1) (spec_alignedAxes s1 s2)"

definition spec_incompatible :: "Shape \<Rightarrow> Shape \<Rightarrow> bool" where
  "spec_incompatible s1 s2 =
     list_ex (\<lambda>(a, b). 1 < a \<and> 1 < b \<and> a \<noteq> b) (spec_alignedAxes s1 s2)"

definition spec_pairwiseMax :: "Shape \<Rightarrow> Shape \<Rightarrow> Shape" where
  "spec_pairwiseMax s1 s2 = map (\<lambda>(a, b). max a b) (spec_alignedAxes s1 s2)"

text \<open>The pairs of sizes the loop \<open>resolveAxes\<close> visits, in the order it visits them.\<close>

fun visitedAxes :: "nat list \<Rightarrow> nat list \<Rightarrow> (nat \<times> nat) list" where
  "visitedAxes [] [] = []"
| "visitedAxes (a # as) [] = (a, 1) # visitedAxes as []"
| "visitedAxes [] (b # bs) = (1, b) # visitedAxes [] bs"
| "visitedAxes (a # as) (b # bs) = (a, b) # visitedAxes as bs"


subsection \<open>What a call leaves of the tensors\<close>

text \<open>No tensor in use before a call is changed by it, and no handle is given up.\<close>

definition tensorsKept :: "'v Engine \<Rightarrow> 'v Engine \<Rightarrow> bool" where
  "tensorsKept E E' =
     (nextTensorId E \<le> nextTensorId E' \<and>
      (\<forall>t < nextTensorId E. registry E' t = registry E t))"

text \<open>A result is fresh when its handle was not in use before the call and is after it.\<close>

definition freshResult :: "'v Engine \<Rightarrow> (error + Tensor) \<times> 'v Engine \<Rightarrow> bool" where
  "freshResult E r =
     (case r of
        (Inl e, E') \<Rightarrow> True
      | (Inr t, E') \<Rightarrow> nextTensorId E \<le> t \<and> t < nextTensorId E')"

section \<open>An elementwise backend\<close>

text \<open>
  Modelled from the spec: the kernels of the backend are not among the sources.
  Section 6 and the glossary: a kernel takes two tensors of broadcastable shapes and
  returns a boolean tensor of the resolved shape, holding at every index the truth value
  of the relation between the two elements found there, where an axis that an operand
  lacks or has with size 1 is stretched. Data is flat and row-major; numbers are
  integers here, and a boolean compares as 0 or 1. A tensor whose data does not reach an
  index is refused.
\<close>

datatype scalar = Num int | Bool bool

fun scalarNumber :: "scalar \<Rightarrow> int" where
  "scalarNumber (Num n) = n"
| "scalarNumber (Bool b) = (if b then 1 else 0)"

fun relationHolds :: "Relation \<Rightarrow> int \<Rightarrow> int \<Rightarrow> bool" where
  "relationHolds Rel_notEqual x y = (x \<noteq> y)"
| "relationHolds Rel_less x y = (x < y)"
| "relationHolds Rel_equal x y = (x = y)"
| "relationHolds Rel_lessEqual x y = (x \<le> y)"
| "relationHolds Rel_greater x y = (x > y)"
| "relationHolds Rel_greaterEqual x y = (x \<ge> y)"

fun indices :: "Shape \<Rightarrow> nat list list" where
  "indices [] = [[]]"
| "indices (d # ds) = concat (map (\<lambda>i. map ((#) i) (indices ds)) [0..<d])"

definition offset :: "Shape \<Rightarrow> nat list \<Rightarrow> nat" where
  "offset s idx = foldl (\<lambda>k (d, i). k * d + i) 0 (zip s idx)"

definition stretched :: "Shape \<Rightarrow> nat list \<Rightarrow> nat list" where
  "stretched s idx =
     map (\<lambda>(d, i). if d = 1 then 0 else i) (zip s (drop (length idx - length s) idx))"

definition elementAt :: "'v TensorData \<Rightarrow> nat list \<Rightarrow> 'v option" where
  "elementAt d idx =
     (let k = offset (shape d) (stretched (shape d) idx)
      in if k < length (elems d) then Some (elems d ! k) else None)"

definition compareAt ::
  "Relation \<Rightarrow> scalar TensorData \<Rightarrow> scalar TensorData \<Rightarrow> nat list \<Rightarrow> scalar option" where
  "compareAt r a b idx =
     (case (elementAt a idx, elementAt b idx) of
        (Some x, Some y) \<Rightarrow> Some (Bool (relationHolds r (scalarNumber x) (scalarNumber y)))
      | _ \<Rightarrow> None)"

definition referenceKernel ::
  "Relation \<Rightarrow> scalar TensorData \<Rightarrow> scalar TensorData \<Rightarrow> error + scalar TensorData" where
  "referenceKernel r a b =
     (case assertAndGetBroadcastShape (shape a) (shape b) of
        Inl e \<Rightarrow> Inl e
      | Inr s \<Rightarrow>
          (case those (map (compareAt r a b) (indices s)) of
             None \<Rightarrow> Inl (BackendError ''The data of an operand does not fill its shape'')
           | Some bs \<Rightarrow> Inr \<lparr>shape = s, dtype = ''bool'', elems = bs\<rparr>))"

definition referenceBackend :: "scalar Backend" where
  "referenceBackend =
     \<lparr>backend_notEqual = referenceKernel Rel_notEqual,
      backend_less = referenceKernel Rel_less,
      backend_equal = referenceKernel Rel_equal,
      backend_lessEqual = referenceKernel Rel_lessEqual,
      backend_greater = referenceKernel Rel_greater,
      backend_greaterEqual = referenceKernel Rel_greaterEqual\<rparr>"

section \<open>Literals and an engine for the examples\<close>

text \<open>
  Modelled from the spec: the reading of literals is not among the sources, and the spec
  leaves their grammar to the coercion utility. For the examples of section 8 a literal
  is nested numeric or boolean data (section 4.1): its shape is its nesting, its data
  are its leaves in order, its element type is that of its first leaf, and a literal
  whose leaves do not fill its shape is refused.
\<close>

datatype Literal = Number int | Boolean bool | Array "Literal list"

fun literalShape :: "Literal \<Rightarrow> Shape" where
  "literalShape (Array []) = [0]"
| "literalShape (Array (x # xs)) = Suc (length xs) # literalShape x"
| "literalShape _ = []"

fun literalElems :: "Literal \<Rightarrow> scalar list" where
  "literalElems (Number n) = [Num n]"
| "literalElems (Boolean b) = [Bool b]"
| "literalElems (Array xs) = concat (map literalElems xs)"

fun literalType :: "Literal \<Rightarrow> DataType" where
  "literalType (Number n) = ''float32''"
| "literalType (Boolean b) = ''bool''"
| "literalType (Array []) = ''float32''"
| "literalType (Array (x # xs)) = literalType x"

definition readNested :: "Literal \<Rightarrow> scalar TensorData option" where
  "readNested l =
     (if prod_list (literalShape l) = length (literalElems l)
      then Some \<lparr>shape = literalShape l, dtype = literalType l, elems = literalElems l\<rparr>
      else None)"

text \<open>
  An engine with the elementwise backend and seven tensors in use: two vectors that
  differ in shape and in element type (handles 0 and 1), a vector like the first (2), a
  vector of its shape and another element type (3), the column and the one-element
  vector that the literals \<^verbatim>\<open>[[1],[2]]\<close> and \<^verbatim>\<open>[2]\<close> read as (4 and 5), and a vector
  of the first one's element type and another length (6).
\<close>

definition noTensor :: "scalar TensorData" where
  "noTensor = \<lparr>shape = [], dtype = ''float32'', elems = [Num 0]\<rparr>"

fun exampleRegistry :: "Tensor \<Rightarrow> scalar TensorData" where
  "exampleRegistry t =
     (if t = 0 then \<lparr>shape = [2], dtype = ''int32'', elems = [Num 1, Num 2]\<rparr>
      else if t = 1 then \<lparr>shape = [3], dtype = ''bool'', elems = [Bool True, Bool False, Bool True]\<rparr>
      else if t = 2 then \<lparr>shape = [2], dtype = ''int32'', elems = [Num 1, Num 3]\<rparr>
      else if t = 3 then \<lparr>shape = [2], dtype = ''bool'', elems = [Bool True, Bool False]\<rparr>
      else if t = 4 then \<lparr>shape = [2, 1], dtype = ''float32'', elems = [Num 1, Num 2]\<rparr>
      else if t = 5 then \<lparr>shape = [1], dtype = ''float32'', elems = [Num 2]\<rparr>
      else if t = 6 then \<lparr>shape = [3], dtype = ''int32'', elems = [Num 1, Num 2, Num 3]\<rparr>
      else noTensor)"

definition exampleEngine :: "scalar Engine" where
  "exampleEngine =
     \<lparr>backend = referenceBackend, registry = exampleRegistry, nextTensorId = 7,
      kernelRuns = 0, tape = []\<rparr>"


section \<open>The collaborators, characterised\<close>

subsection \<open>The broadcast shape resolver\<close>

lemma resolveAxes_visitedAxes:
  "resolveAxes ra rb result =
     (if list_all (\<lambda>(a, b). axisCompatible a b) (visitedAxes ra rb)
      then Some (rev (map (\<lambda>(a, b). max a b) (visitedAxes ra rb)) @ result) else None)"
  by (induction ra rb result rule: resolveAxes.induct) simp_all

lemma visitedAxes_zip:
  "visitedAxes ra rb =
     zip (ra @ replicate (max (length ra) (length rb) - length ra) 1)
         (rb @ replicate (max (length ra) (length rb) - length rb) 1)"
  by (induction ra rb rule: visitedAxes.induct) simp_all

lemma visitedAxes_rev: "visitedAxes (rev s1) (rev s2) = rev (spec_alignedAxes s1 s2)"
proof -
  let ?n = "max (length s1) (length s2)"
  have "length (spec_padLeft ?n s1) = length (spec_padLeft ?n s2)"
    by (simp add: spec_padLeft_def)
  then have "rev (zip (spec_padLeft ?n s1) (spec_padLeft ?n s2)) =
      zip (rev (spec_padLeft ?n s1)) (rev (spec_padLeft ?n s2))"
    by (simp add: zip_rev)
  then show ?thesis
    by (simp add: visitedAxes_zip spec_alignedAxes_def Let_def spec_padLeft_def)
qed

lemma assertAndGetBroadcastShape_spec:
  "assertAndGetBroadcastShape s1 s2 =
     (if spec_compatible s1 s2 then Inr (spec_pairwiseMax s1 s2)
      else Inl (ShapeMismatchError
             (''Operands could not be broadcast together with shapes '' @
              showShape s1 @ '' and '' @ showShape s2)))"
  by (simp add: assertAndGetBroadcastShape_def resolveAxes_visitedAxes visitedAxes_rev
      spec_compatible_def spec_pairwiseMax_def axisCompatible_def rev_map)

lemma length_spec_pairwiseMax:
  "length (spec_pairwiseMax s1 s2) = max (length s1) (length s2)"
  by (simp add: spec_pairwiseMax_def spec_alignedAxes_def Let_def spec_padLeft_def)

lemma spec_incompatible_not_compatible:
  "spec_incompatible s1 s2 \<Longrightarrow> \<not> spec_compatible s1 s2"
  by (fastforce simp: spec_incompatible_def spec_compatible_def list_all_iff list_ex_iff)

lemma spec_compatible_same: "spec_compatible s s"
  by (auto simp: spec_compatible_def spec_alignedAxes_def Let_def spec_padLeft_def
      list_all_iff zip_same)

text \<open>
  C2: for every pair of shapes that is compatible in the sense of trailing-axis
  broadcasting (after left-padding the shorter shape with 1s, every aligned pair of
  sizes is equal or holds a 1) the resolver returns the shape of rank
  \<open>max (rank s1) (rank s2)\<close> whose sizes are the pairwise maxima of the aligned sizes, and
  for every incompatible pair (some aligned pair with both sizes above 1 and unequal) it
  fails with \<^verbatim>\<open>ShapeMismatchError\<close>.
\<close>

theorem resolver_pairwise_max_or_shape_error:
  "(spec_compatible s1 s2 \<longrightarrow>
      assertAndGetBroadcastShape s1 s2 = Inr (spec_pairwiseMax s1 s2) \<and>
      length (spec_pairwiseMax s1 s2) = max (length s1) (length s2)) \<and>
   (spec_incompatible s1 s2 \<longrightarrow>
      (\<exists>msg. assertAndGetBroadcastShape s1 s2 = Inl (ShapeMismatchError msg)))"
  using spec_incompatible_not_compatible [of s1 s2]
  by (auto simp: assertAndGetBroadcastShape_spec length_spec_pairwiseMax)

theorem resolver_pairwise_max_or_shape_error_witness:
  "spec_compatible [2, 3] [4, 1, 3] \<and>
   spec_pairwiseMax [2, 3] [4, 1, 3] = [4, 2, 3] \<and>
   assertAndGetBroadcastShape [2, 3] [4, 1, 3] = Inr [4, 2, 3] \<and>
   spec_incompatible [2, 3] [4, 3, 3] \<and>
   (\<exists>msg. assertAndGetBroadcastShape [2, 3] [4, 3, 3] = Inl (ShapeMismatchError msg))"
proof -
  have c: "spec_compatible [2, 3] [4, 1, 3]"
    by (simp add: spec_compatible_def spec_alignedAxes_def spec_padLeft_def)
  have i: "spec_incompatible [2, 3] [4, 3, 3]"
    by (simp add: spec_incompatible_def spec_alignedAxes_def spec_padLeft_def)
  have m: "spec_pairwiseMax [2, 3] [4, 1, 3] = [4, 2, 3]"
    by (simp add: spec_pairwiseMax_def spec_alignedAxes_def spec_padLeft_def)
  show ?thesis
    using c i m resolver_pairwise_max_or_shape_error [of "[2, 3]" "[4, 1, 3]"]
      resolver_pairwise_max_or_shape_error [of "[2, 3]" "[4, 3, 3]"]
    by simp
qed

subsection \<open>The strict shape validator\<close>

lemma sizesEqual_iff: "length a = length b \<and> sizesEqual a b \<longleftrightarrow> a = b"
  by (induction a b rule: sizesEqual.induct) auto

lemma assertShapesMatch_eq:
  "assertShapesMatch s1 s2 ctx =
     (if s1 = s2 then Inr ()
      else Inl (ShapeMismatchError
             (ctx @ ''Shapes '' @ showShape s1 @ '' and '' @ showShape s2 @ '' must match'')))"
  by (simp add: assertShapesMatch_def sizesEqual_iff)

text \<open>
  C6: the strict shape validator never fails when both arguments are the same shape,
  whatever the context string, and it fails (with \<^verbatim>\<open>ShapeMismatchError\<close>, the message
  starting with the context) whenever the two shapes differ in rank or in a dimension.
\<close>

theorem assertShapesMatch_same_ok_differ_fails:
  "assertShapesMatch s s ctx = Inr () \<and>
   (length s1 \<noteq> length s2 \<or> (\<exists>i < length s1. s1 ! i \<noteq> s2 ! i) \<longrightarrow>
      (\<exists>rest. assertShapesMatch s1 s2 ctx = Inl (ShapeMismatchError (ctx @ rest))))"
  by (auto simp: assertShapesMatch_eq)

theorem assertShapesMatch_same_ok_differ_fails_witness:
  "assertShapesMatch [2, 3] [2, 3] ''Error in lessStrict: '' = Inr () \<and>
   (\<exists>i < length [2, 3 :: nat]. [2, 3] ! i \<noteq> [2, 4 :: nat] ! i) \<and>
   (\<exists>rest. assertShapesMatch [2, 3] [2, 4] ''Error in lessStrict: '' =
      Inl (ShapeMismatchError (''Error in lessStrict: '' @ rest))) \<and>
   length [2 :: nat] \<noteq> length [2, 1 :: nat] \<and>
   (\<exists>rest. assertShapesMatch [2] [2, 1] ''Error in lessStrict: '' =
      Inl (ShapeMismatchError (''Error in lessStrict: '' @ rest)))"
proof -
  have h: "\<exists>i < length [2, 3 :: nat]. [2, 3] ! i \<noteq> [2, 4 :: nat] ! i"
    by (rule exI [of _ 1]) simp
  show ?thesis
    using h
      assertShapesMatch_same_ok_differ_fails
        [of "[2, 3]" "''Error in lessStrict: ''" "[2, 3]" "[2, 4]"]
      assertShapesMatch_same_ok_differ_fails
        [of "[2, 3]" "''Error in lessStrict: ''" "[2]" "[2, 1]"]
    by simp
qed


section \<open>The entries as instances of the two common bodies\<close>

lemma broadcastingEntry_dispatch:
  "broadcastingEntry r = dispatch (broadcastingName r) (kernelOf r)"
  by (cases r)
    (simp_all add: fun_eq_iff dispatch_def notEqual_def less_op_def equal_op_def
      lessEqual_def greater_op_def greaterEqual_def)

lemma strictEntry_dispatch:
  "strictEntry r = dispatchStrict (strictName r) (broadcastingName r) (kernelOf r)"
  by (cases r)
    (simp_all add: fun_eq_iff dispatchStrict_def dispatch_def
      notEqual_def less_op_def equal_op_def lessEqual_def greater_op_def greaterEqual_def
      notEqualStrict_def lessStrict_def equalStrict_def lessEqualStrict_def
      greaterStrict_def greaterEqualStrict_def
      Tensor_notEqual_def Tensor_less_def Tensor_equal_def Tensor_lessEqual_def
      Tensor_greater_def Tensor_greaterEqual_def
      split: prod.split sum.split)

lemma less_op_dispatch: "less_op = dispatch ''less'' backend_less"
  using broadcastingEntry_dispatch [of Rel_less] by simp

subsection \<open>Coercion and the kernel run\<close>

lemma convertToTensor_coerce:
  "convertToTensor rd E x argName functionName =
     (case coerce rd E x of
        None \<Rightarrow> (Inl (invalidOperand argName functionName), E)
      | Some (t, E') \<Rightarrow> (Inr t, E'))"
  by (simp add: convertToTensor_def coerce_def register_def split: Operand.splits option.splits)

lemma coerce_cases:
  "coerce rd E x =
     (case x of
        IsTensor t \<Rightarrow> Some (t, E)
      | IsTensorLike l \<Rightarrow>
          (case rd l of None \<Rightarrow> None | Some d \<Rightarrow> Some (register E d)))"
  by (simp add: convertToTensor_def coerce_def register_def split: Operand.splits option.splits)

lemma coerce_IsTensor: "coerce rd E (IsTensor t) = Some (t, E)"
  by (simp add: coerce_cases)

lemma coerce_kernelRuns:
  "coerce rd E x = Some (t, E') \<Longrightarrow> kernelRuns E' = kernelRuns E \<and> tape E' = tape E"
  by (auto simp: coerce_cases register_def split: Operand.splits option.splits)

subsection \<open>A call once both operands are coerced\<close>

lemma dispatch_coerced:
  "coerce rd E a = Some (ta, E1) \<Longrightarrow> coerce rd E1 b = Some (tb, E2) \<Longrightarrow>
   dispatch name k rd E a b =
     (case assertTypesMatch (registry E2 ta) (registry E2 tb) of
        Inl e \<Rightarrow> (Inl e, E2)
      | Inr _ \<Rightarrow>
     (case assertAndGetBroadcastShape (shape (registry E2 ta)) (shape (registry E2 tb)) of
        Inl e \<Rightarrow> (Inl e, E2)
      | Inr _ \<Rightarrow>
          runKernel E2 (\<lambda>theBackend. k theBackend (registry E2 ta) (registry E2 tb))
            [(''$a'', ta), (''$b'', tb)]))"
  by (simp add: dispatch_def convertToTensor_coerce)

lemma dispatchStrict_coerced:
  "coerce rd E a = Some (ta, E1) \<Longrightarrow> coerce rd E1 b = Some (tb, E2) \<Longrightarrow>
   dispatchStrict nameStrict name k rd E a b =
     (case assertShapesMatch (shape (registry E2 ta)) (shape (registry E2 tb))
             (''Error in '' @ nameStrict @ '': '') of
        Inl e \<Rightarrow> (Inl e, E2)
      | Inr _ \<Rightarrow> dispatch name k rd E2 (IsTensor ta) (IsTensor tb))"
  by (simp add: dispatchStrict_def convertToTensor_coerce)

lemma dispatch_type_mismatch:
  assumes "coerce rd E a = Some (ta, E1)" and "coerce rd E1 b = Some (tb, E2)"
    and "dtype (registry E2 ta) \<noteq> dtype (registry E2 tb)"
  shows "dispatch name k rd E a b =
    (Inl (TypeMismatchError
       (''The dtypes of the operands ('' @ dtype (registry E2 ta) @ '' and '' @
        dtype (registry E2 tb) @ '') must match'')), E2)"
  using assms by (simp add: dispatch_coerced assertTypesMatch_def)

lemma dispatch_shape_mismatch:
  assumes "coerce rd E a = Some (ta, E1)" and "coerce rd E1 b = Some (tb, E2)"
    and "dtype (registry E2 ta) = dtype (registry E2 tb)"
    and "\<not> spec_compatible (shape (registry E2 ta)) (shape (registry E2 tb))"
  shows "dispatch name k rd E a b =
    (Inl (ShapeMismatchError
       (''Operands could not be broadcast together with shapes '' @
        showShape (shape (registry E2 ta)) @ '' and '' @
        showShape (shape (registry E2 tb)))), E2)"
  using assms
  by (simp add: dispatch_coerced assertTypesMatch_def assertAndGetBroadcastShape_spec)

lemma dispatchStrict_shape_mismatch:
  assumes "coerce rd E a = Some (ta, E1)" and "coerce rd E1 b = Some (tb, E2)"
    and "shape (registry E2 ta) \<noteq> shape (registry E2 tb)"
  shows "dispatchStrict nameStrict name k rd E a b =
    (Inl (ShapeMismatchError
       (''Error in '' @ nameStrict @ '': '' @ ''Shapes '' @
        showShape (shape (registry E2 ta)) @ '' and '' @
        showShape (shape (registry E2 tb)) @ '' must match'')), E2)"
  using assms by (simp add: dispatchStrict_coerced assertShapesMatch_eq)

lemma dispatchStrict_same_shape:
  assumes "coerce rd E a = Some (ta, E1)" and "coerce rd E1 b = Some (tb, E2)"
    and "shape (registry E2 ta) = shape (registry E2 tb)"
  shows "dispatchStrict nameStrict name k rd E a b = dispatch name k rd E a b"
proof -
  have "dispatchStrict nameStrict name k rd E a b =
      dispatch name k rd E2 (IsTensor ta) (IsTensor tb)"
    using assms by (simp add: dispatchStrict_coerced assertShapesMatch_eq)
  also have "\<dots> = dispatch name k rd E a b"
    by (simp add: dispatch_coerced [OF assms(1,2)]
        dispatch_coerced [OF coerce_IsTensor coerce_IsTensor])
  finally show ?thesis .
qed

subsection \<open>The outcome of a call, and what a call leaves of the engine\<close>

lemma dispatch_outcome:
  "operandInUse E a \<Longrightarrow> operandInUse E b \<Longrightarrow>
   outcome (dispatch name k rd E a b) =
     broadcastingOutcome name k (backend E) (operandValue rd E a) (operandValue rd E b)"
  by (cases a; cases b)
    (auto simp: dispatch_def convertToTensor_def register_def runKernel_def outcome_def
      broadcastingOutcome_def operandValue_def operandInUse_def Let_def
      split: option.splits sum.splits)

lemma dispatchStrict_outcome:
  "operandInUse E a \<Longrightarrow> operandInUse E b \<Longrightarrow>
   outcome (dispatchStrict nameStrict name k rd E a b) =
     strictOutcome nameStrict name k (backend E) (operandValue rd E a) (operandValue rd E b)"
  by (cases a; cases b)
    (auto simp: dispatchStrict_def convertToTensor_def register_def
      strictOutcome_def operandValue_def operandInUse_def dispatch_outcome
      outcome_def [of "(Inl _, _)"]
      split: option.splits sum.splits)

lemma dispatch_frame:
  "tensorsKept E (snd (dispatch name k rd E a b)) \<and> freshResult E (dispatch name k rd E a b)"
  by (cases a; cases b)
    (auto simp: dispatch_def convertToTensor_def register_def runKernel_def
      tensorsKept_def freshResult_def Let_def
      split: option.splits sum.splits)

lemma dispatchStrict_frame:
  "tensorsKept E (snd (dispatchStrict nameStrict name k rd E a b)) \<and>
   freshResult E (dispatchStrict nameStrict name k rd E a b)"
  by (cases a; cases b)
    (auto simp: dispatchStrict_def dispatch_def convertToTensor_def register_def runKernel_def
      tensorsKept_def freshResult_def Let_def
      split: option.splits sum.splits)

lemma operandValue_kept:
  "operandInUse E x \<Longrightarrow> tensorsKept E E' \<Longrightarrow> operandValue rd E' x = operandValue rd E x"
  by (cases x) (simp_all add: operandInUse_def operandValue_def tensorsKept_def)

subsection \<open>Facts about the examples\<close>

lemma example_dtype:
  "dtype (registry exampleEngine 0) = ''int32''"
  "dtype (registry exampleEngine 1) = ''bool''"
  "dtype (registry exampleEngine (Suc 0)) = ''bool''"
  "dtype (registry exampleEngine 2) = ''int32''"
  "dtype (registry exampleEngine 3) = ''bool''"
  "dtype (registry exampleEngine 4) = ''float32''"
  "dtype (registry exampleEngine 5) = ''float32''"
  "dtype (registry exampleEngine 6) = ''int32''"
  by (simp_all add: exampleEngine_def)

lemma example_shape:
  "shape (registry exampleEngine 0) = [2]"
  "shape (registry exampleEngine 1) = [3]"
  "shape (registry exampleEngine (Suc 0)) = [3]"
  "shape (registry exampleEngine 2) = [2]"
  "shape (registry exampleEngine 3) = [2]"
  "shape (registry exampleEngine 4) = [2, 1]"
  "shape (registry exampleEngine 5) = [1]"
  "shape (registry exampleEngine 6) = [3]"
  by (simp_all add: exampleEngine_def)

lemma readNested_examples:
  "readNested (Array [Array [Number 1], Array [Number 2]]) =
     Some \<lparr>shape = [2, 1], dtype = ''float32'', elems = [Num 1, Num 2]\<rparr>"
  "readNested (Array [Number 2]) = Some \<lparr>shape = [1], dtype = ''float32'', elems = [Num 2]\<rparr>"
  by (simp_all add: readNested_def)

lemma referenceKernel_less_example:
  "referenceKernel Rel_less
     \<lparr>shape = [2, 1], dtype = d, elems = [Num 1, Num 2]\<rparr>
     \<lparr>shape = [1], dtype = d, elems = [Num 2]\<rparr> =
   Inr \<lparr>shape = [2, 1], dtype = ''bool'', elems = [Bool True, Bool False]\<rparr>"
  by (simp add: referenceKernel_def assertAndGetBroadcastShape_def axisCompatible_def
      compareAt_def elementAt_def offset_def stretched_def upt_rec)

lemma example_less_call:
  "less_op readNested exampleEngine (IsTensor 4) (IsTensor 5) =
     (Inr 7, exampleEngine\<lparr>registry := exampleRegistry
          (7 := \<lparr>shape = [2, 1], dtype = ''bool'', elems = [Bool True, Bool False]\<rparr>),
        nextTensorId := 8, kernelRuns := 1, tape := [([(''$a'', 4), (''$b'', 5)], 7)]\<rparr>)"
  by (simp add: less_op_def convertToTensor_def assertTypesMatch_def exampleEngine_def
      assertAndGetBroadcastShape_def axisCompatible_def runKernel_def register_def
      referenceBackend_def referenceKernel_less_example Let_def del: One_nat_def)

section \<open>Properties of the twelve entries\<close>

text \<open>
  C1, as the code has it: for each of the six broadcasting entries, a call whose coerced
  operands differ in element type raises \<^verbatim>\<open>TypeMismatchError\<close> whatever their shapes
  are, since the type check comes before the broadcast shape check. For each of the six
  strict entries the strict shape validation comes first: a call whose coerced operands
  differ in shape raises \<^verbatim>\<open>ShapeMismatchError\<close> whatever their element types are.
\<close>

theorem type_error_first_when_broadcasting_shape_error_first_when_strict:
  assumes "coerce rd E a = Some (ta, E1)" and "coerce rd E1 b = Some (tb, E2)"
  shows "(dtype (registry E2 ta) \<noteq> dtype (registry E2 tb) \<longrightarrow>
            (\<exists>msg. fst (broadcastingEntry r rd E a b) = Inl (TypeMismatchError msg))) \<and>
         (shape (registry E2 ta) \<noteq> shape (registry E2 tb) \<longrightarrow>
            (\<exists>msg. fst (strictEntry r rd E a b) = Inl (ShapeMismatchError msg)))"
  by (simp add: broadcastingEntry_dispatch strictEntry_dispatch
      dispatch_type_mismatch [OF assms] dispatchStrict_shape_mismatch [OF assms])

theorem type_error_first_when_broadcasting_shape_error_first_when_strict_witness:
  "coerce readNested exampleEngine (IsTensor 0) = Some (0, exampleEngine) \<and>
   coerce readNested exampleEngine (IsTensor 1) = Some (1, exampleEngine) \<and>
   dtype (registry exampleEngine 0) \<noteq> dtype (registry exampleEngine 1) \<and>
   shape (registry exampleEngine 0) \<noteq> shape (registry exampleEngine 1) \<and>
   (\<exists>msg. fst (broadcastingEntry Rel_greaterEqual readNested exampleEngine
              (IsTensor 0) (IsTensor 1)) = Inl (TypeMismatchError msg)) \<and>
   (\<exists>msg. fst (strictEntry Rel_greaterEqual readNested exampleEngine
              (IsTensor 0) (IsTensor 1)) = Inl (ShapeMismatchError msg))"
  using type_error_first_when_broadcasting_shape_error_first_when_strict
      [of readNested exampleEngine "IsTensor 0" 0 exampleEngine "IsTensor 1" 1
        exampleEngine Rel_greaterEqual]
  by (simp add: coerce_IsTensor example_dtype example_shape)

text \<open>
  C1 as stated fails on the strict entries: \<^verbatim>\<open>notEqualStrict\<close> on an \<^verbatim>\<open>int32\<close> vector of
  length 2 and a \<^verbatim>\<open>bool\<close> vector of length 3, which differ in element type and whose
  shapes neither match nor broadcast, raises \<^verbatim>\<open>ShapeMismatchError\<close>.
\<close>

theorem notEqualStrict_reports_shape_before_type:
  "dtype (registry exampleEngine 0) \<noteq> dtype (registry exampleEngine 1) \<and>
   shape (registry exampleEngine 0) \<noteq> shape (registry exampleEngine 1) \<and>
   spec_incompatible (shape (registry exampleEngine 0)) (shape (registry exampleEngine 1)) \<and>
   fst (notEqualStrict readNested exampleEngine (IsTensor 0) (IsTensor 1)) =
     Inl (ShapeMismatchError ''Error in notEqualStrict: Shapes 2 and 3 must match'')"
  by (simp add: example_dtype example_shape spec_incompatible_def spec_alignedAxes_def
      spec_padLeft_def notEqualStrict_def convertToTensor_def assertShapesMatch_def)

text \<open>
  C3: for each of the six relations and operands whose coerced tensors have the same
  shape and the same element type, the strict entry and the broadcasting entry return
  the same result, element for element: started from the same engine, the two calls
  end with the same result handle in the same engine.
\<close>

theorem strict_agrees_with_broadcasting_on_same_shape:
  assumes "coerce rd E a = Some (ta, E1)" and "coerce rd E1 b = Some (tb, E2)"
    and "shape (registry E2 ta) = shape (registry E2 tb)"
    and "dtype (registry E2 ta) = dtype (registry E2 tb)"
  shows "strictEntry r rd E a b = broadcastingEntry r rd E a b \<and>
         outcome (strictEntry r rd E a b) = outcome (broadcastingEntry r rd E a b)"
  by (simp add: broadcastingEntry_dispatch strictEntry_dispatch
      dispatchStrict_same_shape [OF assms(1,2,3)])

theorem strict_agrees_with_broadcasting_on_same_shape_witness:
  "coerce readNested exampleEngine (IsTensor 0) = Some (0, exampleEngine) \<and>
   coerce readNested exampleEngine (IsTensor 2) = Some (2, exampleEngine) \<and>
   shape (registry exampleEngine 0) = shape (registry exampleEngine 2) \<and>
   dtype (registry exampleEngine 0) = dtype (registry exampleEngine 2) \<and>
   strictEntry Rel_notEqual readNested exampleEngine (IsTensor 0) (IsTensor 2) =
     broadcastingEntry Rel_notEqual readNested exampleEngine (IsTensor 0) (IsTensor 2) \<and>
   outcome (strictEntry Rel_notEqual readNested exampleEngine (IsTensor 0) (IsTensor 2)) =
     outcome (broadcastingEntry Rel_notEqual readNested exampleEngine (IsTensor 0) (IsTensor 2))"
  using strict_agrees_with_broadcasting_on_same_shape
      [of readNested exampleEngine "IsTensor 0" 0 exampleEngine "IsTensor 2" 2
        exampleEngine Rel_notEqual]
  by (simp add: coerce_IsTensor example_dtype example_shape)

text \<open>
  C4: for each strict entry, if the shapes of the two coerced operands differ (in rank
  or in a dimension), the call fails with \<^verbatim>\<open>ShapeMismatchError\<close>, the message starts
  with the context string that names the strict operation, and no kernel of the backend
  is run by the call.
\<close>

theorem strict_shape_mismatch_names_entry_and_runs_no_kernel:
  assumes "coerce rd E a = Some (ta, E1)" and "coerce rd E1 b = Some (tb, E2)"
    and "shape (registry E2 ta) \<noteq> shape (registry E2 tb)"
  shows "(\<exists>rest. fst (strictEntry r rd E a b) =
            Inl (ShapeMismatchError (''Error in '' @ strictName r @ '': '' @ rest))) \<and>
         kernelRuns (snd (strictEntry r rd E a b)) = kernelRuns E"
  using coerce_kernelRuns [OF assms(1)] coerce_kernelRuns [OF assms(2)]
  by (simp add: strictEntry_dispatch dispatchStrict_shape_mismatch [OF assms])

theorem strict_shape_mismatch_names_entry_and_runs_no_kernel_witness:
  "coerce readNested exampleEngine (IsTensor 0) = Some (0, exampleEngine) \<and>
   coerce readNested exampleEngine (IsTensor 6) = Some (6, exampleEngine) \<and>
   shape (registry exampleEngine 0) \<noteq> shape (registry exampleEngine 6) \<and>
   (\<exists>rest. fst (strictEntry Rel_greater readNested exampleEngine (IsTensor 0) (IsTensor 6)) =
      Inl (ShapeMismatchError (''Error in greaterStrict: '' @ rest))) \<and>
   kernelRuns (snd (strictEntry Rel_greater readNested exampleEngine (IsTensor 0) (IsTensor 6))) =
     kernelRuns exampleEngine"
  using strict_shape_mismatch_names_entry_and_runs_no_kernel
      [of readNested exampleEngine "IsTensor 0" 0 exampleEngine "IsTensor 6" 6
        exampleEngine Rel_greater]
  by (simp add: coerce_IsTensor example_dtype example_shape)

text \<open>
  C5: for each broadcasting entry, if the shapes of the two coerced operands are not
  broadcast compatible, the call fails before the engine is asked to run a kernel: the
  count of kernel runs and the tape are as before the call. When the element types agree
  the failure is the \<^verbatim>\<open>ShapeMismatchError\<close> of the shape validation (when they differ,
  the type check has failed before it).
\<close>

theorem broadcasting_incompatible_shapes_fail_before_kernel:
  assumes "coerce rd E a = Some (ta, E1)" and "coerce rd E1 b = Some (tb, E2)"
    and "\<not> spec_compatible (shape (registry E2 ta)) (shape (registry E2 tb))"
  shows "(\<exists>e. fst (broadcastingEntry r rd E a b) = Inl e) \<and>
         (dtype (registry E2 ta) = dtype (registry E2 tb) \<longrightarrow>
            (\<exists>msg. fst (broadcastingEntry r rd E a b) = Inl (ShapeMismatchError msg))) \<and>
         kernelRuns (snd (broadcastingEntry r rd E a b)) = kernelRuns E \<and>
         tape (snd (broadcastingEntry r rd E a b)) = tape E"
proof (cases "dtype (registry E2 ta) = dtype (registry E2 tb)")
  case True
  then show ?thesis
    using coerce_kernelRuns [OF assms(1)] coerce_kernelRuns [OF assms(2)]
    by (simp add: broadcastingEntry_dispatch
        dispatch_shape_mismatch [OF assms(1,2) True assms(3)])
next
  case False
  then show ?thesis
    using coerce_kernelRuns [OF assms(1)] coerce_kernelRuns [OF assms(2)]
    by (simp add: broadcastingEntry_dispatch dispatch_type_mismatch [OF assms(1,2) False])
qed

theorem broadcasting_incompatible_shapes_fail_before_kernel_witness:
  "coerce readNested exampleEngine (IsTensor 0) = Some (0, exampleEngine) \<and>
   coerce readNested exampleEngine (IsTensor 6) = Some (6, exampleEngine) \<and>
   \<not> spec_compatible (shape (registry exampleEngine 0)) (shape (registry exampleEngine 6)) \<and>
   dtype (registry exampleEngine 0) = dtype (registry exampleEngine 6) \<and>
   (\<exists>msg. fst (broadcastingEntry Rel_lessEqual readNested exampleEngine
              (IsTensor 0) (IsTensor 6)) = Inl (ShapeMismatchError msg)) \<and>
   kernelRuns (snd (broadcastingEntry Rel_lessEqual readNested exampleEngine
              (IsTensor 0) (IsTensor 6))) = kernelRuns exampleEngine \<and>
   tape (snd (broadcastingEntry Rel_lessEqual readNested exampleEngine
              (IsTensor 0) (IsTensor 6))) = tape exampleEngine"
proof -
  have n: "\<not> spec_compatible (shape (registry exampleEngine 0)) (shape (registry exampleEngine 6))"
    by (simp add: example_shape spec_compatible_def spec_alignedAxes_def spec_padLeft_def)
  show ?thesis
    using n broadcasting_incompatible_shapes_fail_before_kernel
      [of readNested exampleEngine "IsTensor 0" 0 exampleEngine "IsTensor 6" 6
        exampleEngine Rel_lessEqual]
    by (simp add: coerce_IsTensor example_dtype)
qed


text \<open>
  C7: no entry changes an input tensor, whether the call succeeds or fails: an operand
  that is a tensor in use has, after the call, the shape, the element type and the data
  it had before, and so has every other tensor in use. A call returns a tensor that was
  not in use before the call, or it fails with one of the errors of the layer.
\<close>

theorem entries_keep_operands_and_return_fresh_tensor:
  assumes "operandInUse E a" and "operandInUse E b"
  shows "operandValue rd (snd (broadcastingEntry r rd E a b)) a = operandValue rd E a \<and>
         operandValue rd (snd (broadcastingEntry r rd E a b)) b = operandValue rd E b \<and>
         tensorsKept E (snd (broadcastingEntry r rd E a b)) \<and>
         freshResult E (broadcastingEntry r rd E a b) \<and>
         operandValue rd (snd (strictEntry r rd E a b)) a = operandValue rd E a \<and>
         operandValue rd (snd (strictEntry r rd E a b)) b = operandValue rd E b \<and>
         tensorsKept E (snd (strictEntry r rd E a b)) \<and>
         freshResult E (strictEntry r rd E a b)"
  using assms
  by (simp add: broadcastingEntry_dispatch strictEntry_dispatch dispatch_frame
      dispatchStrict_frame operandValue_kept)

theorem entries_keep_operands_and_return_fresh_tensor_witness:
  "operandInUse exampleEngine (IsTensor 4) \<and>
   operandInUse exampleEngine (IsTensorLike (Array [Number 2])) \<and>
   registry (snd (broadcastingEntry Rel_less readNested exampleEngine
      (IsTensor 4) (IsTensorLike (Array [Number 2])))) 4 = registry exampleEngine 4 \<and>
   freshResult exampleEngine (broadcastingEntry Rel_less readNested exampleEngine
      (IsTensor 4) (IsTensorLike (Array [Number 2]))) \<and>
   registry (snd (strictEntry Rel_less readNested exampleEngine
      (IsTensor 4) (IsTensorLike (Array [Number 2])))) 4 = registry exampleEngine 4 \<and>
   freshResult exampleEngine (strictEntry Rel_less readNested exampleEngine
      (IsTensor 4) (IsTensorLike (Array [Number 2])))"
proof -
  let ?L = "IsTensorLike (Array [Number 2])"
  have u: "operandInUse exampleEngine (IsTensor 4)" "operandInUse exampleEngine ?L"
    by (simp_all add: operandInUse_def exampleEngine_def)
  note c = entries_keep_operands_and_return_fresh_tensor [OF u, of readNested Rel_less]
  have b: "registry (snd (broadcastingEntry Rel_less readNested exampleEngine (IsTensor 4) ?L)) 4 =
      registry exampleEngine 4"
    using c by (simp add: operandValue_def)
  have s: "registry (snd (strictEntry Rel_less readNested exampleEngine (IsTensor 4) ?L)) 4 =
      registry exampleEngine 4"
    using c by (simp add: operandValue_def)
  from u b s c show ?thesis by blast
qed

text \<open>
  C8: the broadcasting entry \<^verbatim>\<open>less\<close> called with operands of the shapes \<open>(2,1)\<close> and
  \<open>(1)\<close> that hold \<^verbatim>\<open>[[1],[2]]\<close> and \<^verbatim>\<open>[2]\<close> succeeds: the shapes resolve to \<open>(2,1)\<close>, and
  with the elementwise backend the result is the boolean tensor \<^verbatim>\<open>[[true],[false]]\<close>.
\<close>

theorem less_of_column_and_singleton:
  assumes "backend E = referenceBackend"
    and "operandInUse E a" and "operandInUse E b"
    and "operandValue rd E a = Some \<lparr>shape = [2, 1], dtype = d, elems = [Num 1, Num 2]\<rparr>"
    and "operandValue rd E b = Some \<lparr>shape = [1], dtype = d, elems = [Num 2]\<rparr>"
  shows "assertAndGetBroadcastShape [2, 1] [1] = Inr [2, 1] \<and>
         outcome (less_op rd E a b) =
           Inr \<lparr>shape = [2, 1], dtype = ''bool'', elems = [Bool True, Bool False]\<rparr>"
proof -
  have "assertAndGetBroadcastShape [2, 1] [1] = Inr [2, 1]"
    by (simp add: assertAndGetBroadcastShape_def axisCompatible_def)
  moreover have "outcome (less_op rd E a b) =
           Inr \<lparr>shape = [2, 1], dtype = ''bool'', elems = [Bool True, Bool False]\<rparr>"
    using assms
    by (simp add: less_op_dispatch dispatch_outcome
        broadcastingOutcome_def assertTypesMatch_def
        assertAndGetBroadcastShape_def axisCompatible_def referenceBackend_def
        referenceKernel_less_example del: One_nat_def)
  ultimately show ?thesis by simp
qed

theorem less_of_column_and_singleton_witness:
  "backend exampleEngine = referenceBackend \<and>
   operandInUse exampleEngine (IsTensorLike (Array [Array [Number 1], Array [Number 2]])) \<and>
   operandInUse exampleEngine (IsTensor 5) \<and>
   operandValue readNested exampleEngine
       (IsTensorLike (Array [Array [Number 1], Array [Number 2]])) =
     Some \<lparr>shape = [2, 1], dtype = ''float32'', elems = [Num 1, Num 2]\<rparr> \<and>
   operandValue readNested exampleEngine (IsTensor 5) =
     Some \<lparr>shape = [1], dtype = ''float32'', elems = [Num 2]\<rparr> \<and>
   assertAndGetBroadcastShape [2, 1] [1] = Inr [2, 1] \<and>
   outcome (less_op readNested exampleEngine
      (IsTensorLike (Array [Array [Number 1], Array [Number 2]])) (IsTensor 5)) =
     Inr \<lparr>shape = [2, 1], dtype = ''bool'', elems = [Bool True, Bool False]\<rparr>"
  using less_of_column_and_singleton
      [of exampleEngine "IsTensorLike (Array [Array [Number 1], Array [Number 2]])"
        "IsTensor 5" readNested "''float32''"]
  by (simp add: operandInUse_def operandValue_def readNested_examples exampleEngine_def
      del: One_nat_def)

text \<open>
  C9: for each strict entry, a call whose coerced operands have the same shape and
  different element types raises \<^verbatim>\<open>TypeMismatchError\<close>: the strict entry has no type
  check of its own, and the broadcasting entry it delegates to makes it. No kernel is
  run.
\<close>

theorem strict_type_mismatch_raised_by_delegation:
  assumes "coerce rd E a = Some (ta, E1)" and "coerce rd E1 b = Some (tb, E2)"
    and "shape (registry E2 ta) = shape (registry E2 tb)"
    and "dtype (registry E2 ta) \<noteq> dtype (registry E2 tb)"
  shows "(\<exists>msg. fst (strictEntry r rd E a b) = Inl (TypeMismatchError msg)) \<and>
         kernelRuns (snd (strictEntry r rd E a b)) = kernelRuns E"
  using coerce_kernelRuns [OF assms(1)] coerce_kernelRuns [OF assms(2)]
  by (simp add: strictEntry_dispatch dispatchStrict_same_shape [OF assms(1,2,3)]
      dispatch_type_mismatch [OF assms(1,2,4)])

theorem strict_type_mismatch_raised_by_delegation_witness:
  "coerce readNested exampleEngine (IsTensor 0) = Some (0, exampleEngine) \<and>
   coerce readNested exampleEngine (IsTensor 3) = Some (3, exampleEngine) \<and>
   shape (registry exampleEngine 0) = shape (registry exampleEngine 3) \<and>
   dtype (registry exampleEngine 0) \<noteq> dtype (registry exampleEngine 3) \<and>
   (\<exists>msg. fst (strictEntry Rel_equal readNested exampleEngine (IsTensor 0) (IsTensor 3)) =
      Inl (TypeMismatchError msg)) \<and>
   kernelRuns (snd (strictEntry Rel_equal readNested exampleEngine (IsTensor 0) (IsTensor 3))) =
     kernelRuns exampleEngine"
  using strict_type_mismatch_raised_by_delegation
      [of readNested exampleEngine "IsTensor 0" 0 exampleEngine "IsTensor 3" 3
        exampleEngine Rel_equal]
  by (simp add: coerce_IsTensor example_dtype example_shape)

text \<open>
  C10: every entry is deterministic for a fixed backend: two calls of the same entry,
  made in any two states of the engine with that backend, on operands that have equal
  values (shape, element type and data, whether given as tensors in use or as literals),
  end alike: with equal errors, or with results equal in shape, element type and data.
\<close>

theorem entries_deterministic:
  assumes "backend E = backend F"
    and "operandInUse E a" and "operandInUse E b"
    and "operandInUse F a'" and "operandInUse F b'"
    and "operandValue rd E a = operandValue rd F a'"
    and "operandValue rd E b = operandValue rd F b'"
  shows "outcome (broadcastingEntry r rd E a b) = outcome (broadcastingEntry r rd F a' b') \<and>
         outcome (strictEntry r rd E a b) = outcome (strictEntry r rd F a' b')"
  using assms
  by (simp add: broadcastingEntry_dispatch strictEntry_dispatch dispatch_outcome
      dispatchStrict_outcome)

theorem entries_deterministic_witness:
  "backend exampleEngine =
     backend (snd (less_op readNested exampleEngine (IsTensor 4) (IsTensor 5))) \<and>
   operandInUse exampleEngine (IsTensor 4) \<and>
   operandInUse exampleEngine (IsTensor 5) \<and>
   operandInUse (snd (less_op readNested exampleEngine (IsTensor 4) (IsTensor 5)))
     (IsTensorLike (Array [Array [Number 1], Array [Number 2]])) \<and>
   operandInUse (snd (less_op readNested exampleEngine (IsTensor 4) (IsTensor 5))) (IsTensor 5) \<and>
   operandValue readNested exampleEngine (IsTensor 4) =
     operandValue readNested (snd (less_op readNested exampleEngine (IsTensor 4) (IsTensor 5)))
       (IsTensorLike (Array [Array [Number 1], Array [Number 2]])) \<and>
   operandValue readNested exampleEngine (IsTensor 5) =
     operandValue readNested (snd (less_op readNested exampleEngine (IsTensor 4) (IsTensor 5)))
       (IsTensor 5) \<and>
   outcome (broadcastingEntry Rel_less readNested exampleEngine (IsTensor 4) (IsTensor 5)) =
     outcome (broadcastingEntry Rel_less readNested
       (snd (less_op readNested exampleEngine (IsTensor 4) (IsTensor 5)))
       (IsTensorLike (Array [Array [Number 1], Array [Number 2]])) (IsTensor 5)) \<and>
   outcome (strictEntry Rel_less readNested exampleEngine (IsTensor 4) (IsTensor 5)) =
     outcome (strictEntry Rel_less readNested
       (snd (less_op readNested exampleEngine (IsTensor 4) (IsTensor 5)))
       (IsTensorLike (Array [Array [Number 1], Array [Number 2]])) (IsTensor 5))"
proof -
  let ?F = "snd (less_op readNested exampleEngine (IsTensor 4) (IsTensor 5))"
  let ?L = "IsTensorLike (Array [Array [Number 1], Array [Number 2]])"
  have h: "backend exampleEngine = backend ?F"
    "operandInUse exampleEngine (IsTensor 4)" "operandInUse exampleEngine (IsTensor 5)"
    "operandInUse ?F ?L" "operandInUse ?F (IsTensor 5)"
    "operandValue readNested exampleEngine (IsTensor 4) = operandValue readNested ?F ?L"
    "operandValue readNested exampleEngine (IsTensor 5) = operandValue readNested ?F (IsTensor 5)"
    by (simp_all add: example_less_call operandInUse_def operandValue_def readNested_examples
        del: One_nat_def)
      (simp_all add: exampleEngine_def)
  show ?thesis
    using h entries_deterministic [OF h, of Rel_less]
    by simp
qed

end
